theory Spec2Isabelle
  imports Complex_Main
begin

section \<open>Sky plot of a target's altitude and azimuth: \<open>astroplan/plots/sky.py\<close>\<close>

text \<open>
  The module has one function, \<open>plot_sky\<close>. It asks an observer for the altitude and
  azimuth of a target at some times, drops the positions below the horizon with a warning,
  and draws the other ones on a polar Axes object, which it then decorates with grid lines
  and tick labels.

  Conventions of the embedding:
  \<^item> a number is a Python float: a real number, an infinity or NaN. Every arithmetic
    operation computes the exact result and rounds it with a rounding function, which is a
    parameter of the model. Two rounding functions are used: \<open>Num\<close>, which does not
    round, and \<open>binary64\<close>, which rounds to the nearest double as Python does. The two
    zeros of a double are not told apart;
  \<^item> a Python string is a list of code points, each below 256 here;
  \<^item> the observer and the Axes object belong to other libraries. The observer is a state
    with a method that returns a failure or a frame of positions and the next state, so
    that two calls need not agree; the Axes object is the record of the attributes that
    the calls made by \<open>plot_sky\<close> set;
  \<^item> the way a call ends is a value: it returns, it raises an exception, or it never
    leaves the loop of lines 179 and 180. The outcome of a call says how it ended, next
    to the state of the Axes object, the warnings emitted and the observer calls made up
    to that point.
\<close>

subsection \<open>Floats\<close>

datatype pyfloat = Num real | PInf | NInf | NaN

type_synonym rounding = "real \<Rightarrow> pyfloat"

fun fneg :: "pyfloat \<Rightarrow> pyfloat" where
  "fneg (Num x) = Num (- x)"
| "fneg PInf = NInf"
| "fneg NInf = PInf"
| "fneg NaN = NaN"

fun fadd :: "rounding \<Rightarrow> pyfloat \<Rightarrow> pyfloat \<Rightarrow> pyfloat" where
  "fadd rnd (Num x) (Num y) = rnd (x + y)"
| "fadd rnd NaN b = NaN"
| "fadd rnd a NaN = NaN"
| "fadd rnd PInf NInf = NaN"
| "fadd rnd NInf PInf = NaN"
| "fadd rnd PInf b = PInf"
| "fadd rnd a PInf = PInf"
| "fadd rnd NInf b = NInf"
| "fadd rnd a NInf = NInf"

definition fsub :: "rounding \<Rightarrow> pyfloat \<Rightarrow> pyfloat \<Rightarrow> pyfloat" where
  "fsub rnd a b = fadd rnd a (fneg b)"

fun fmul :: "rounding \<Rightarrow> pyfloat \<Rightarrow> pyfloat \<Rightarrow> pyfloat" where
  "fmul rnd (Num x) (Num y) = rnd (x * y)"
| "fmul rnd NaN b = NaN"
| "fmul rnd a NaN = NaN"
| "fmul rnd (Num x) PInf = (if x = 0 then NaN else if 0 < x then PInf else NInf)"
| "fmul rnd (Num x) NInf = (if x = 0 then NaN else if 0 < x then NInf else PInf)"
| "fmul rnd PInf (Num y) = (if y = 0 then NaN else if 0 < y then PInf else NInf)"
| "fmul rnd NInf (Num y) = (if y = 0 then NaN else if 0 < y then NInf else PInf)"
| "fmul rnd PInf PInf = PInf"
| "fmul rnd PInf NInf = NInf"
| "fmul rnd NInf PInf = NInf"
| "fmul rnd NInf NInf = PInf"

text \<open>Comparisons: every comparison with NaN is false.\<close>

fun flt :: "pyfloat \<Rightarrow> pyfloat \<Rightarrow> bool" where
  "flt (Num x) (Num y) = (x < y)"
| "flt NaN b = False"
| "flt a NaN = False"
| "flt NInf NInf = False"
| "flt NInf b = True"
| "flt PInf b = False"
| "flt (Num x) PInf = True"
| "flt (Num x) NInf = False"

fun fle :: "pyfloat \<Rightarrow> pyfloat \<Rightarrow> bool" where
  "fle (Num x) (Num y) = (x \<le> y)"
| "fle NaN b = False"
| "fle a NaN = False"
| "fle NInf b = True"
| "fle a PInf = True"
| "fle PInf b = False"
| "fle (Num x) NInf = False"

definition fgt :: "pyfloat \<Rightarrow> pyfloat \<Rightarrow> bool" where
  "fgt a b = flt b a"

definition fge :: "pyfloat \<Rightarrow> pyfloat \<Rightarrow> bool" where
  "fge a b = fle b a"

text \<open>
  Rounding to the nearest double, ties to the even significand: 53 significant bits, the
  least exponent \<open>-1022\<close> (below it the spacing stays \<open>2 powi - 1074\<close>), and an infinity
  when the rounded value reaches \<open>2 powi 1024\<close>.
\<close>

definition round_even :: "real \<Rightarrow> int" where
  "round_even r =
     (let f = \<lfloor>r\<rfloor>; d = r - of_int f
      in if d < 1 / 2 then f else if 1 / 2 < d then f + 1 else if even f then f else f + 1)"

definition binary64 :: rounding where
  "binary64 x =
     (if x = 0 then Num 0
      else
        let e = max \<lfloor>log 2 \<bar>x\<bar>\<rfloor> (- 1022);
            q = 2 powi (e - 52);
            y = of_int (round_even (x / q)) * q
        in if 2 powi 1024 \<le> \<bar>y\<bar> then (if 0 < x then PInf else NInf) else Num y)"

text \<open>The float \<open>np.pi/180.0\<close>: the double next to \<open>pi\<close>, divided by 180.\<close>

definition deg2rad :: "rounding \<Rightarrow> pyfloat" where
  "deg2rad rnd = (case rnd pi of Num p \<Rightarrow> rnd (p / 180) | z \<Rightarrow> z)"

subsection \<open>Data\<close>

text \<open>Values that occur in the style dictionary handed to \<open>scatter\<close>.\<close>

datatype style_value = NoneVal | StrVal string | NumVal real

type_synonym kwargs = "string \<rightharpoonup> style_value"

text \<open>The \<open>name\<close> attribute of a target: missing, \<open>None\<close>, or a string.\<close>

datatype name_attr = NoAttr | NoneName | StrName string

record 'c target =
  name :: name_attr
  coord :: 'c

text \<open>One entry of the frame returned by \<open>observer.altaz\<close>, in degrees.\<close>

record altaz =
  alt :: pyfloat
  az :: pyfloat

text \<open>The \<open>time\<close> argument: a scalar \<open>Time\<close> or an array of instants.\<close>

datatype 't time_arg = Scalar 't | Array "'t list"

text \<open>One call of \<open>ax.scatter(theta, r, **kwargs)\<close>.\<close>

record scatter_call =
  sc_theta :: "pyfloat list"
  sc_r :: "pyfloat list"
  sc_kwargs :: kwargs

text \<open>
  The polar Axes object, as far as \<open>plot_sky\<close> touches it: the zero location and the
  direction of the angle, the scatter calls received so far, the radial limits, whether
  the major grid is shown, the radial and angular grids (positions, labels and the
  keyword \<open>angle\<close> or \<open>frac\<close>), and how often the canvas was redrawn.
\<close>

record surface =
  theta_zero_location :: string
  theta_direction :: int
  scatters :: "scatter_call list"
  rlim :: "real \<times> real"
  major_grid :: bool
  rgrids :: "int list \<times> string list \<times> int"
  thetagrids :: "int list \<times> string list \<times> real"
  canvas_draws :: nat

datatype 'e error = ObserverFailure 'e | IndexError

datatype 'e ending = Returned | Raised "'e error" | Hangs

text \<open>
  What a call of \<open>plot_sky\<close> leaves behind: how it ended, the Axes object (the returned
  value when the call returns), the warnings emitted in order, the arguments of the calls
  of \<open>observer.altaz\<close> in order, and the state of the observer after them.
\<close>

record ('e, 't, 'c, 'o) outcome =
  ended :: "'e ending"
  axes :: surface
  warned :: "string list"
  altaz_calls :: "('t list \<times> 'c target) list"
  observer_after :: 'o

subsection \<open>Small helpers of the translation\<close>

text \<open>\<open>range(start, stop, step)\<close> for a positive step.\<close>

definition py_range :: "int \<Rightarrow> int \<Rightarrow> int \<Rightarrow> int list" where
  "py_range start stop step =
     map (\<lambda>k. start + step * int k) [0..<nat ((stop - start + step - 1) div step)]"

text \<open>\<open>d.setdefault(k, v)\<close>: store \<open>v\<close> under \<open>k\<close> unless \<open>k\<close> is present.\<close>

definition setdefault :: "kwargs \<Rightarrow> string \<Rightarrow> style_value \<Rightarrow> kwargs" where
  "setdefault d k v = (case d k of None \<Rightarrow> d(k \<mapsto> v) | Some _ \<Rightarrow> d)"

definition degree_sign :: string where
  "degree_sign = [CHR 0xB0]"

definition newline :: string where
  "newline = [CHR 0x0A]"

subsection \<open>Lines 98 to 123: arguments, positions, names\<close>

text \<open>Lines 107 to 109: a scalar \<open>Time\<close> becomes an array of length one.\<close>

fun as_array :: "'t time_arg \<Rightarrow> 't list" where
  "as_array (Scalar t) = [t]"
| "as_array (Array ts) = ts"

text \<open>Line 114: \<open>(91 * u.deg - frame.alt) * (1/u.deg)\<close>; the units only change the unit.\<close>

definition altitude_of :: "rounding \<Rightarrow> altaz list \<Rightarrow> pyfloat list" where
  "altitude_of rnd frame = map (\<lambda>s. fsub rnd (Num 91) (alt s)) frame"

text \<open>Line 116: \<open>frame.az * (1/u.deg) * (np.pi/180.0)\<close>.\<close>

definition azimuth_of :: "rounding \<Rightarrow> altaz list \<Rightarrow> pyfloat list" where
  "azimuth_of rnd frame = map (\<lambda>s. fmul rnd (az s) (deg2rad rnd)) frame"

text \<open>Lines 119 to 122: the empty string when the target has no attribute \<open>name\<close>.\<close>

fun target_name :: "name_attr \<Rightarrow> style_value" where
  "target_name NoAttr = StrVal []"
| "target_name NoneName = NoneVal"
| "target_name (StrName s) = StrVal s"

text \<open>
  Line 131: \<open>target_name if target_name else 'Unknown Name'\<close>, as it is formatted into
  the message. \<open>None\<close> and the empty string are false.
\<close>

fun shown_name :: "name_attr \<Rightarrow> string" where
  "shown_name NoAttr = ''Unknown Name''"
| "shown_name NoneName = ''Unknown Name''"
| "shown_name (StrName s) = (if s = [] then ''Unknown Name'' else s)"

text \<open>Line 129, with the two fields filled in.\<close>

definition warning_msg :: "string \<Rightarrow> string \<Rightarrow> string" where
  "warning_msg nm tm =
     ''Warning: Target '' @ [CHR 0x22] @ nm @ [CHR 0x22] @
     '' is below the horizon at time: '' @ tm"

subsection \<open>Lines 126 to 140: positions above the horizon\<close>

text \<open>
  The loop over \<open>range(0, len(altitude))\<close>, as a recursion over the indices still to be
  visited. \<open>az_plot\<close> starts as \<open>None\<close>. An index outside \<open>time\<close> or \<open>azimuth\<close> raises
  \<open>IndexError\<close>, and the loop stops there with what it has done so far.
\<close>

fun horizon_loop ::
  "pyfloat list \<Rightarrow> pyfloat list \<Rightarrow> 't list \<Rightarrow> ('t \<Rightarrow> string) \<Rightarrow> string \<Rightarrow> nat list \<Rightarrow>
   pyfloat list option \<Rightarrow> string list \<Rightarrow>
   'e error option \<times> pyfloat list option \<times> string list"
where
  "horizon_loop altitude azimuth time str_time nm [] az_plot ws = (None, az_plot, ws)"
| "horizon_loop altitude azimuth time str_time nm (i # rest) az_plot ws =
     (if fgt (altitude ! i) (Num 91) then
        (if i < length time
         then horizon_loop altitude azimuth time str_time nm rest az_plot
                (ws @ [warning_msg nm (str_time (time ! i))])
         else (Some IndexError, az_plot, ws))
      else
        (if i < length azimuth
         then horizon_loop altitude azimuth time str_time nm rest
                (Some (case az_plot of None \<Rightarrow> [azimuth ! i] | Some a \<Rightarrow> a @ [azimuth ! i])) ws
         else (Some IndexError, az_plot, ws)))"

text \<open>Line 138: the boolean mask \<open>altitude <= 91.0\<close>.\<close>

definition alt_mask :: "pyfloat list \<Rightarrow> pyfloat list" where
  "alt_mask altitude = filter (\<lambda>a. fle a (Num 91)) altitude"

text \<open>Lines 139 and 140: \<open>None\<close> becomes the empty list.\<close>

fun az_or_empty :: "pyfloat list option \<Rightarrow> pyfloat list" where
  "az_or_empty None = []"
| "az_or_empty (Some a) = a"

subsection \<open>Lines 176 to 191: the labels of the angular grid\<close>

text \<open>
  Lines 179 and 180: \<open>while label_angle >= 360.0: label_angle -= 360.0\<close>. The loop need
  not end: the value is \<open>None\<close> when it does not.
\<close>

partial_function (option) wrap360 :: "rounding \<Rightarrow> pyfloat \<Rightarrow> pyfloat option" where
  "wrap360 rnd x =
     (if fge x (Num 360) then wrap360 rnd (fsub rnd x (Num 360)) else Some x)"

text \<open>Line 178 followed by the loop.\<close>

definition label_angle :: "rounding \<Rightarrow> pyfloat \<Rightarrow> nat \<Rightarrow> pyfloat option" where
  "label_angle rnd az_label_offset chunk =
     wrap360 rnd (fadd rnd az_label_offset (fmul rnd (Num (real chunk)) (Num 45)))"

text \<open>Lines 178 to 191 for one tick; \<open>str_angle\<close> is Python's \<open>str\<close> on the angle.\<close>

definition theta_label ::
  "rounding \<Rightarrow> (pyfloat \<Rightarrow> string) \<Rightarrow> pyfloat \<Rightarrow> nat \<Rightarrow> string option" where
  "theta_label rnd str_angle az_label_offset chunk =
     (case label_angle rnd az_label_offset chunk of
        None \<Rightarrow> None
      | Some la \<Rightarrow> Some
         (if chunk = 0 then ''N '' @ newline @ str_angle la @ degree_sign @ '' Az''
          else if chunk = 2 then ''E'' @ newline @ str_angle la @ degree_sign
          else if chunk = 4 then ''S'' @ newline @ str_angle la @ degree_sign
          else if chunk = 6 then ''W'' @ newline @ str_angle la @ degree_sign
          else str_angle la @ degree_sign))"

text \<open>Lines 176 and 177: the labels of the ticks 0 to 6, if every loop ends.\<close>

definition theta_labels ::
  "rounding \<Rightarrow> (pyfloat \<Rightarrow> string) \<Rightarrow> pyfloat \<Rightarrow> string list option" where
  "theta_labels rnd str_angle az_label_offset =
     those (map (theta_label rnd str_angle az_label_offset) [0..<7])"

text \<open>Lines 166 to 174.\<close>

definition r_labels :: "string list" where
  "r_labels =
     [''90'' @ degree_sign, '''', ''60'' @ degree_sign, '''', ''30'' @ degree_sign, '''',
      ''0'' @ degree_sign @ '' Alt.'']"

subsection \<open>The function \<open>plot_sky\<close>\<close>

text \<open>
  Parameters that the source takes from its environment come first: the rounding of the
  float arithmetic, \<open>str_time\<close> and \<open>str_angle\<close> (Python's \<open>str\<close> on an instant and on an
  angle), \<open>gca\<close> (the polar Axes object that \<open>plt.gca(projection='polar')\<close> hands out) and
  \<open>altaz_method\<close> (the method \<open>altaz\<close> of the observer's class). The other parameters are
  those of the source, in its order; \<open>observer\<close> is the state of the observer object, and
  \<open>None\<close> for \<open>ax\<close> and \<open>style_kwargs\<close> is \<open>None\<close>. The flags \<open>north_to_east_ccw\<close> and
  \<open>grid\<close> are booleans, and \<open>az_label_offset\<close> is in degrees.
\<close>

definition plot_sky ::
  "rounding \<Rightarrow> ('t \<Rightarrow> string) \<Rightarrow> (pyfloat \<Rightarrow> string) \<Rightarrow> surface \<Rightarrow>
   ('o \<Rightarrow> 't list \<Rightarrow> 'c target \<Rightarrow> ('e + altaz list) \<times> 'o) \<Rightarrow>
   'c target \<Rightarrow> 'o \<Rightarrow> 't time_arg \<Rightarrow> surface option \<Rightarrow> kwargs option \<Rightarrow> bool \<Rightarrow> bool \<Rightarrow>
   pyfloat \<Rightarrow> ('e, 't, 'c, 'o) outcome"
where
  "plot_sky rnd str_time str_angle gca altaz_method target observer time ax style_kwargs
       north_to_east_ccw grid az_label_offset =
     (let ax = (case ax of None \<Rightarrow> gca | Some a \<Rightarrow> a);
          style_kwargs = (case style_kwargs of None \<Rightarrow> Map.empty | Some d \<Rightarrow> d);
          style_kwargs = setdefault style_kwargs ''marker'' (StrVal ''o'');
          time = as_array time;
          (answer1, observer) = altaz_method observer time target
      in
      case answer1 of
        Inl e \<Rightarrow>
          \<lparr>ended = Raised (ObserverFailure e), axes = ax, warned = [],
           altaz_calls = [(time, target)], observer_after = observer\<rparr>
      | Inr frame1 \<Rightarrow>
         (let altitude = altitude_of rnd frame1;
              (answer2, observer) = altaz_method observer time target
          in
          case answer2 of
            Inl e \<Rightarrow>
              \<lparr>ended = Raised (ObserverFailure e), axes = ax, warned = [],
               altaz_calls = [(time, target), (time, target)], observer_after = observer\<rparr>
          | Inr frame2 \<Rightarrow>
             (let azimuth = azimuth_of rnd frame2;
                  style_kwargs = setdefault style_kwargs ''label'' (target_name (name target));
                  (err, az_plot, ws) =
                     horizon_loop altitude azimuth time str_time (shown_name (name target))
                       [0..<length altitude] None []
              in
              case err of
                Some x \<Rightarrow>
                  \<lparr>ended = Raised x, axes = ax, warned = ws,
                   altaz_calls = [(time, target), (time, target)], observer_after = observer\<rparr>
              | None \<Rightarrow>
                 (let alt_plot = alt_mask altitude;
                      az_plot = az_or_empty az_plot;
                      ax = ax\<lparr>theta_zero_location := ''N''\<rparr>;
                      ax = (if \<not> north_to_east_ccw then ax\<lparr>theta_direction := - 1\<rparr> else ax);
                      ax = ax\<lparr>scatters := scatters ax @
                             [\<lparr>sc_theta = az_plot, sc_r = alt_plot, sc_kwargs = style_kwargs\<rparr>]\<rparr>;
                      ax = ax\<lparr>rlim := (1, 91)\<rparr>;
                      ax = (if grid then ax\<lparr>major_grid := True\<rparr> else ax);
                      ax = (if \<not> grid then ax\<lparr>major_grid := False\<rparr> else ax)
                  in
                  case theta_labels rnd str_angle az_label_offset of
                    None \<Rightarrow>
                      \<lparr>ended = Hangs, axes = ax, warned = ws,
                       altaz_calls = [(time, target), (time, target)],
                       observer_after = observer\<rparr>
                  | Some labels \<Rightarrow>
                     (let ax = ax\<lparr>rgrids := (py_range 1 106 15, r_labels, - 45)\<rparr>;
                          ax = ax\<lparr>thetagrids := (py_range 0 360 45, labels, 1.2)\<rparr>;
                          ax = ax\<lparr>canvas_draws := Suc (canvas_draws ax)\<rparr>
                      in \<lparr>ended = Returned, axes = ax, warned = ws,
                          altaz_calls = [(time, target), (time, target)],
                          observer_after = observer\<rparr>)))))"

subsection \<open>Example inputs\<close>

text \<open>
  A small world to run \<open>plot_sky\<close> in: instants are strings printed as they are, and the
  Axes object is a new polar one (angle zero at East, counter-clockwise). The observer
  knows where the target is at some instants: at \<open>grazing\<close> it is a hair below the
  horizon, and at \<open>void\<close> its altitude is not a number. One observer always answers, one
  always fails, and one answers its first call and fails from then on.
\<close>

definition iso :: "string \<Rightarrow> string" where
  "iso t = t"

definition example_position :: "string \<Rightarrow> altaz" where
  "example_position t =
     (if t = ''zenith'' then \<lparr>alt = Num 90, az = Num 0\<rparr>
      else if t = ''noon'' then \<lparr>alt = Num 45, az = Num 180\<rparr>
      else if t = ''dusk'' then \<lparr>alt = Num 0, az = Num 270\<rparr>
      else if t = ''grazing'' then \<lparr>alt = Num (- (1 / 2 ^ 50)), az = Num 270\<rparr>
      else if t = ''void'' then \<lparr>alt = NaN, az = Num 0\<rparr>
      else \<lparr>alt = Num (- 10), az = Num 0\<rparr>)"

definition example_altaz ::
  "unit \<Rightarrow> string list \<Rightarrow> unit target \<Rightarrow> (string + altaz list) \<times> unit" where
  "example_altaz u ts tg = (Inr (map example_position ts), ())"

definition failing_altaz ::
  "unit \<Rightarrow> string list \<Rightarrow> unit target \<Rightarrow> (string + altaz list) \<times> unit" where
  "failing_altaz u ts tg = (Inl ''unresolvable target'', ())"

definition flaky_altaz ::
  "nat \<Rightarrow> string list \<Rightarrow> unit target \<Rightarrow> (string + altaz list) \<times> nat" where
  "flaky_altaz n ts tg =
     (if n = 0 then Inr (map example_position ts) else Inl ''connection lost'', Suc n)"

definition vega :: "unit target" where
  "vega = \<lparr>name = StrName ''Vega'', coord = ()\<rparr>"

definition example_str_angle :: "pyfloat \<Rightarrow> string" where
  "example_str_angle x =
     (if x = Num 10 then ''10.0'' else if x = Num 100 then ''100.0''
      else if x = Num 145 then ''145.0'' else if x = Num 190 then ''190.0''
      else if x = Num 235 then ''235.0'' else if x = Num 280 then ''280.0''
      else if x = Num 325 then ''325.0'' else ''other'')"

definition new_polar_axes :: surface where
  "new_polar_axes =
     \<lparr>theta_zero_location = ''E'', theta_direction = 1, scatters = [], rlim = (0, 1),
      major_grid = True, rgrids = ([], [], 0), thetagrids = ([], [], 0), canvas_draws = 0\<rparr>"

definition clockwise_axes :: surface where
  "clockwise_axes = new_polar_axes\<lparr>theta_zero_location := ''N'', theta_direction := - 1\<rparr>"

section \<open>Properties\<close>

subsection \<open>Rounding to doubles\<close>

lemma floor_log2_eq:
  fixes x :: real
  assumes "2 powi e \<le> x" "x < 2 powi (e + 1)"
  shows "\<lfloor>log 2 x\<rfloor> = e"
proof -
  have pos: "0 < x"
    using assms(1) by (smt (verit) zero_less_power_int)
  have "2 powr real_of_int e \<le> x \<and> x < 2 powr (real_of_int e + 1)"
    using assms powr_real_of_int' [of 2 e] powr_real_of_int' [of 2 "e + 1"]
    by (simp add: add.commute)
  then show ?thesis
    using floor_log_eq_powr_iff [of x 2 e] pos by simp
qed

lemma floor_log2_bounds:
  fixes x :: real
  assumes "0 < x"
  shows "2 powi \<lfloor>log 2 x\<rfloor> \<le> x" and "x < 2 powi (\<lfloor>log 2 x\<rfloor> + 1)"
proof -
  have "2 powr real_of_int \<lfloor>log 2 x\<rfloor> \<le> x \<and> x < 2 powr (real_of_int \<lfloor>log 2 x\<rfloor> + 1)"
    using floor_log_eq_powr_iff [of x 2 "\<lfloor>log 2 x\<rfloor>"] assms by simp
  then show "2 powi \<lfloor>log 2 x\<rfloor> \<le> x" and "x < 2 powi (\<lfloor>log 2 x\<rfloor> + 1)"
    using powr_real_of_int' [of 2 "\<lfloor>log 2 x\<rfloor>"] powr_real_of_int' [of 2 "\<lfloor>log 2 x\<rfloor> + 1"]
    by (simp_all add: add.commute)
qed

text \<open>
  The double next to \<open>x\<close>, once the exponent of \<open>x\<close> is known.
\<close>

lemma binary64_eq:
  assumes "2 powi e \<le> \<bar>x\<bar>" "\<bar>x\<bar> < 2 powi (e + 1)" "- 1022 \<le> e"
  shows "binary64 x =
    (if 2 powi 1024 \<le> \<bar>real_of_int (round_even (x / 2 powi (e - 52))) * 2 powi (e - 52)\<bar>
     then (if 0 < x then PInf else NInf)
     else Num (of_int (round_even (x / 2 powi (e - 52))) * 2 powi (e - 52)))"
proof -
  have "x \<noteq> 0"
    using assms(1) by (smt (verit) zero_less_power_int)
  moreover have "\<lfloor>log 2 \<bar>x\<bar>\<rfloor> = e"
    using assms(1,2) by (rule floor_log2_eq)
  ultimately show ?thesis
    using assms(3) by (simp add: binary64_def Let_def max_def)
qed

lemma round_even_of_int: "round_even (of_int m) = m"
  by (simp add: round_even_def)

text \<open>
  A number with at most 53 significant bits, inside the range of the doubles, is a double:
  rounding leaves it as it is. Whole numbers below \<open>2 ^ 53\<close> are of this kind.
\<close>

lemma binary64_exact:
  assumes x: "x = real_of_int m * 2 powi k"
    and m: "\<bar>m\<bar> < 2 ^ 53"
    and k: "- 1074 \<le> k"
    and big: "\<bar>x\<bar> < 2 powi 1024"
  shows "binary64 x = Num x"
proof (cases "x = 0")
  case True
  then show ?thesis by (simp add: binary64_def)
next
  case False
  define l where "l = \<lfloor>log 2 \<bar>x\<bar>\<rfloor>"
  define e where "e = max l (- 1022)"
  have pos: "0 < \<bar>x\<bar>"
    using False by simp
  have low: "2 powi l \<le> \<bar>x\<bar>"
    unfolding l_def using pos by (rule floor_log2_bounds)
  have "\<bar>x\<bar> = real_of_int \<bar>m\<bar> * 2 powi k"
    by (simp add: x abs_mult)
  also have "\<dots> < 2 ^ 53 * 2 powi k"
  proof (rule mult_strict_right_mono)
    show "real_of_int \<bar>m\<bar> < 2 ^ 53"
      using m by (metis of_int_less_numeral_power_cancel_iff)
    show "(0::real) < 2 powi k"
      by simp
  qed
  also have "\<dots> = 2 powi (53 + k)"
    by (simp add: power_int_add)
  finally have "2 powi l < (2::real) powi (53 + k)"
    using low by simp
  then have "l < 53 + k"
    by (smt (verit) power_int_increasing)
  then have ek: "e \<le> k + 52"
    unfolding e_def using k by simp
  define j where "j = nat (k + 52 - e)"
  have jk: "int j = k + 52 - e"
    unfolding j_def using ek by simp
  have "x / 2 powi (e - 52) = real_of_int m * (2 powi k * 2 powi (52 - e))"
    by (simp add: x power_int_diff field_simps)
  also have "2 powi k * 2 powi (52 - e) = (2::real) powi (int j)"
    unfolding jk by (simp add: power_int_add power_int_diff field_simps)
  finally have q: "x / 2 powi (e - 52) = real_of_int (m * 2 ^ j)"
    by simp
  have "real_of_int (round_even (x / 2 powi (e - 52))) * 2 powi (e - 52) =
        x / 2 powi (e - 52) * 2 powi (e - 52)"
    unfolding q round_even_of_int ..
  also have "\<dots> = x"
    by simp
  finally have y: "real_of_int (round_even (x / 2 powi (e - 52))) * 2 powi (e - 52) = x" .
  show ?thesis
    using False big y
    by (simp add: binary64_def Let_def flip: l_def e_def)
qed

lemma binary64_int:
  assumes "\<bar>m\<bar> < 2 ^ 53"
  shows "binary64 (real_of_int m) = Num (real_of_int m)"
proof (rule binary64_exact [where m = m and k = 0])
  show "real_of_int m = real_of_int m * 2 powi 0"
    by simp
  show "\<bar>m\<bar> < 2 ^ 53"
    by (rule assms)
  show "- 1074 \<le> (0::int)"
    by simp
  have "\<bar>real_of_int m\<bar> < 2 ^ 53"
    using assms by (metis of_int_abs of_int_less_numeral_power_cancel_iff)
  also have "\<dots> < (2::real) powi 1024"
    by simp
  finally show "\<bar>real_of_int m\<bar> < 2 powi 1024" .
qed

lemma binary64_numeral:
  "\<bar>numeral k :: int\<bar> < 2 ^ 53 \<Longrightarrow> binary64 (numeral k) = Num (numeral k)"
  using binary64_int [of "numeral k"] by simp

lemma binary64_neg_numeral:
  "\<bar>numeral k :: int\<bar> < 2 ^ 53 \<Longrightarrow> binary64 (- numeral k) = Num (- numeral k)"
  using binary64_int [of "- numeral k"] by simp

lemma binary64_zero_one: "binary64 0 = Num 0" "binary64 1 = Num 1"
  using binary64_int [of 0] binary64_int [of 1] by simp_all

text \<open>
  Half a unit in the last place of 91 is \<open>1 / 2 ^ 47\<close>: adding \<open>1 / 2 ^ 50\<close> to 91
  gives 91 again.
\<close>

lemma binary64_grazing: "binary64 (91 + 1 / 2 ^ 50) = Num 91"
  using binary64_eq [of 6 "91 + 1 / 2 ^ 50"] by (simp add: round_even_def power_int_minus)

subsection \<open>Float operations\<close>

lemma fsub_Num [simp]: "fsub rnd (Num x) (Num y) = rnd (x - y)"
  by (simp add: fsub_def)

lemma fsub_NaN [simp]: "fsub rnd a NaN = NaN" "fsub rnd NaN b = NaN"
  by (cases a; simp add: fsub_def)+

lemma fle_iff_not_fgt: "a \<noteq> NaN \<Longrightarrow> fle a (Num c) = (\<not> fgt a (Num c))"
  by (cases a) (auto simp: fgt_def)

lemma deg2rad_exact: "deg2rad Num = Num (pi / 180)"
  by (simp add: deg2rad_def)

subsection \<open>The wrapping loop\<close>

text \<open>
  The loop ends after \<open>n\<close> subtractions when the first \<open>n\<close> values are at least 360 and
  the next one is not, and it ends in no other way.
\<close>

lemma wrap360_steps:
  assumes "\<forall>j<n. fge (((\<lambda>v. fsub rnd v (Num 360)) ^^ j) s) (Num 360)"
    and "\<not> fge (((\<lambda>v. fsub rnd v (Num 360)) ^^ n) s) (Num 360)"
  shows "wrap360 rnd s = Some (((\<lambda>v. fsub rnd v (Num 360)) ^^ n) s)"
  using assms
proof (induction n arbitrary: s)
  case 0
  then show ?case
    by (subst wrap360.simps) simp
next
  case (Suc n)
  from Suc.prems(1) have first: "fge s (Num 360)"
    by (metis funpow_0 zero_less_Suc)
  have "\<forall>j<n. fge (((\<lambda>v. fsub rnd v (Num 360)) ^^ j) (fsub rnd s (Num 360))) (Num 360)"
    using Suc.prems(1) by (metis Suc_less_eq funpow_Suc_right o_apply)
  moreover have "\<not> fge (((\<lambda>v. fsub rnd v (Num 360)) ^^ n) (fsub rnd s (Num 360))) (Num 360)"
    using Suc.prems(2) by (simp add: funpow_Suc_right del: funpow.simps)
  ultimately have "wrap360 rnd (fsub rnd s (Num 360)) =
      Some (((\<lambda>v. fsub rnd v (Num 360)) ^^ n) (fsub rnd s (Num 360)))"
    by (rule Suc.IH)
  with first show ?case
    by (subst wrap360.simps) (simp add: funpow_Suc_right del: funpow.simps)
qed

lemma wrap360_Some:
  assumes "wrap360 rnd s = Some a"
  shows "\<exists>n. a = ((\<lambda>v. fsub rnd v (Num 360)) ^^ n) s \<and> \<not> fge a (Num 360) \<and>
             (\<forall>j<n. fge (((\<lambda>v. fsub rnd v (Num 360)) ^^ j) s) (Num 360))"
proof -
  let ?Q = "\<lambda>r v b. \<exists>n. b = ((\<lambda>v. fsub r v (Num 360)) ^^ n) v \<and> \<not> fge b (Num 360) \<and>
             (\<forall>j<n. fge (((\<lambda>v. fsub r v (Num 360)) ^^ j) v) (Num 360))"
  have "(case (rnd, s) of (r, v) \<Rightarrow> ?Q r v) a"
  proof (rule wrap360.raw_induct [where P = ?Q])
    show "(case (rnd, s) of (r, v) \<Rightarrow> wrap360 r v) = Some a"
      using assms by simp
  next
    fix w r x y
    assume IH: "\<And>r b z. w r b = Some z \<Longrightarrow> ?Q r b z"
      and eq: "(if fge x (Num 360) then w r (fsub r x (Num 360)) else Some x) = Some y"
    show "?Q r x y"
    proof (cases "fge x (Num 360)")
      case False
      with eq have "y = x" by simp
      with False show ?thesis
        by (intro exI [of _ 0]) simp
    next
      case True
      with eq have "w r (fsub r x (Num 360)) = Some y" by simp
      from IH [OF this] obtain n where
        n: "y = ((\<lambda>v. fsub r v (Num 360)) ^^ n) (fsub r x (Num 360))"
          "\<not> fge y (Num 360)"
          "\<forall>j<n. fge (((\<lambda>v. fsub r v (Num 360)) ^^ j) (fsub r x (Num 360))) (Num 360)"
        by blast
      have "\<forall>j<Suc n. fge (((\<lambda>v. fsub r v (Num 360)) ^^ j) x) (Num 360)"
      proof (intro allI impI)
        fix j assume "j < Suc n"
        show "fge (((\<lambda>v. fsub r v (Num 360)) ^^ j) x) (Num 360)"
        proof (cases j)
          case 0
          with True show ?thesis by simp
        next
          case (Suc i)
          with \<open>j < Suc n\<close> n(3) show ?thesis
            by (simp add: funpow_Suc_right del: funpow.simps)
        qed
      qed
      with n(1,2) show ?thesis
        by (intro exI [of _ "Suc n"]) (simp add: funpow_Suc_right del: funpow.simps)
    qed
  qed
  then show ?thesis
    by simp
qed

text \<open>
  When the subtractions are exact, the loop takes 360 off as often as it fits.
\<close>

lemma sub360_exact:
  assumes "\<forall>j. 1 \<le> j \<and> j \<le> n \<longrightarrow> rnd (s - 360 * real j) = Num (s - 360 * real j)"
    and "i \<le> n"
  shows "((\<lambda>v. fsub rnd v (Num 360)) ^^ i) (Num s) = Num (s - 360 * real i)"
  using assms(2)
proof (induction i)
  case 0
  then show ?case by simp
next
  case (Suc i)
  then have prev: "((\<lambda>v. fsub rnd v (Num 360)) ^^ i) (Num s) = Num (s - 360 * real i)"
    by simp
  have ex: "rnd (s - 360 * real (Suc i)) = Num (s - 360 * real (Suc i))"
    using assms(1) [rule_format, of "Suc i"] Suc.prems by simp
  have eq: "s - 360 * real i - 360 = s - 360 * real (Suc i)"
    by (simp add: algebra_simps)
  have "((\<lambda>v. fsub rnd v (Num 360)) ^^ Suc i) (Num s) = fsub rnd (Num (s - 360 * real i)) (Num 360)"
    using prev by simp
  also have "\<dots> = rnd (s - 360 * real (Suc i))"
    unfolding fsub_Num eq ..
  finally show ?case
    using ex by simp
qed

lemma wrap360_exact:
  assumes n: "n = (if s < 360 then 0 else nat \<lfloor>s / 360\<rfloor>)"
    and ex: "\<forall>j. 1 \<le> j \<and> j \<le> n \<longrightarrow> rnd (s - 360 * real j) = Num (s - 360 * real j)"
  shows "wrap360 rnd (Num s) = Some (Num (s - 360 * real n))"
proof -
  have it: "((\<lambda>v. fsub rnd v (Num 360)) ^^ i) (Num s) = Num (s - 360 * real i)" if "i \<le> n" for i
    using ex that by (rule sub360_exact)
  have bounds: "360 * real n \<le> s \<or> n = 0" "s < 360 * (real n + 1)"
  proof -
    show "360 * real n \<le> s \<or> n = 0"
    proof (cases "s < 360")
      case True
      then show ?thesis using n by simp
    next
      case False
      then have "real n = of_int \<lfloor>s / 360\<rfloor>"
        using n by simp
      moreover have "of_int \<lfloor>s / 360\<rfloor> \<le> s / 360"
        by (rule of_int_floor_le)
      ultimately show ?thesis by simp
    qed
    show "s < 360 * (real n + 1)"
    proof (cases "s < 360")
      case True
      then show ?thesis using n by simp
    next
      case False
      then have "real n = of_int \<lfloor>s / 360\<rfloor>"
        using n by simp
      moreover have "s / 360 < of_int \<lfloor>s / 360\<rfloor> + 1"
        by linarith
      ultimately have "s / 360 < real n + 1"
        by simp
      then show ?thesis by (simp add: field_simps)
    qed
  qed
  have "\<forall>j<n. fge (((\<lambda>v. fsub rnd v (Num 360)) ^^ j) (Num s)) (Num 360)"
  proof (intro allI impI)
    fix j assume j: "j < n"
    then have "real j + 1 \<le> real n"
      by simp
    then have "360 * (real j + 1) \<le> 360 * real n"
      by simp
    moreover have "360 * real n \<le> s"
      using bounds(1) j by auto
    ultimately have "360 \<le> s - 360 * real j"
      by (simp add: algebra_simps)
    then show "fge (((\<lambda>v. fsub rnd v (Num 360)) ^^ j) (Num s)) (Num 360)"
      using it [of j] j by (simp add: fge_def)
  qed
  moreover have "\<not> fge (((\<lambda>v. fsub rnd v (Num 360)) ^^ n) (Num s)) (Num 360)"
    using it [of n] bounds(2) by (simp add: fge_def algebra_simps)
  ultimately have "wrap360 rnd (Num s) = Some (((\<lambda>v. fsub rnd v (Num 360)) ^^ n) (Num s))"
    by (rule wrap360_steps)
  then show ?thesis
    using it [of n] by simp
qed

lemma wrapped_range:
  fixes s :: real
  assumes n: "n = (if s < 360 then 0 else nat \<lfloor>s / 360\<rfloor>)"
  shows "s - 360 * real n < 360" and "0 \<le> s - 360 * real n \<longleftrightarrow> 0 \<le> s"
    and "s < 360 \<longrightarrow> s - 360 * real n = s"
proof -
  show "s < 360 \<longrightarrow> s - 360 * real n = s"
    using n by simp
  have big: "360 * real n \<le> s \<and> s < 360 * real n + 360" if "\<not> s < 360"
  proof -
    from that have "real n = of_int \<lfloor>s / 360\<rfloor>"
      using n by simp
    moreover have "of_int \<lfloor>s / 360\<rfloor> \<le> s / 360" "s / 360 < of_int \<lfloor>s / 360\<rfloor> + 1"
      by linarith+
    ultimately have "real n \<le> s / 360" "s / 360 < real n + 1"
      by simp_all
    then show ?thesis
      by (simp add: field_simps)
  qed
  show "s - 360 * real n < 360"
    using n big by (cases "s < 360") auto
  show "0 \<le> s - 360 * real n \<longleftrightarrow> 0 \<le> s"
    using n big by (cases "s < 360") auto
qed

lemma label_angle_closed_form:
  assumes s: "s = x + 45 * real chunk"
    and n: "n = (if s < 360 then 0 else nat \<lfloor>s / 360\<rfloor>)"
    and mul: "rnd (real chunk * 45) = Num (real chunk * 45)"
    and add: "rnd (x + real chunk * 45) = Num (x + real chunk * 45)"
    and subs: "\<forall>j. 1 \<le> j \<and> j \<le> n \<longrightarrow> rnd (s - 360 * real j) = Num (s - 360 * real j)"
  shows "label_angle rnd (Num x) chunk = Some (Num (s - 360 * real n))"
proof -
  have "fadd rnd (Num x) (fmul rnd (Num (real chunk)) (Num 45)) = Num s"
    by (simp add: mul add s mult.commute)
  then show ?thesis
    unfolding label_angle_def using wrap360_exact [OF n subs] by simp
qed

text \<open>
  In doubles the arithmetic of the labels is exact for an offset that is a whole number
  of degrees, up to \<open>2 ^ 52\<close> in size.
\<close>

lemma label_angle_binary64_whole_degrees:
  assumes m: "\<bar>m\<bar> \<le> 2 ^ 52" and c: "chunk < 7"
    and s: "s = real_of_int m + 45 * real chunk"
    and n: "n = (if s < 360 then 0 else nat \<lfloor>s / 360\<rfloor>)"
  shows "label_angle binary64 (Num (real_of_int m)) chunk = Some (Num (s - 360 * real n))"
proof (rule label_angle_closed_form [OF s n])
  have "real chunk * 45 = real_of_int (int chunk * 45)"
    by simp
  moreover have "\<bar>int chunk * 45\<bar> < 2 ^ 53"
    using c by simp
  ultimately show "binary64 (real chunk * 45) = Num (real chunk * 45)"
    using binary64_int [of "int chunk * 45"] by simp
next
  have "real_of_int m + real chunk * 45 = real_of_int (m + int chunk * 45)"
    by simp
  moreover have "\<bar>m + int chunk * 45\<bar> < 2 ^ 53"
    using m c by simp
  ultimately show "binary64 (real_of_int m + real chunk * 45) =
      Num (real_of_int m + real chunk * 45)"
    using binary64_int [of "m + int chunk * 45"] by simp
next
  show "\<forall>j. 1 \<le> j \<and> j \<le> n \<longrightarrow> binary64 (s - 360 * real j) = Num (s - 360 * real j)"
  proof (intro allI impI)
    fix j :: nat assume j: "1 \<le> j \<and> j \<le> n"
    then have big: "\<not> s < 360"
      using n by (cases "s < 360") auto
    then have "real n = of_int \<lfloor>s / 360\<rfloor>"
      using n by simp
    moreover have "of_int \<lfloor>s / 360\<rfloor> \<le> s / 360"
      by linarith
    ultimately have "360 * real n \<le> s"
      by (simp add: field_simps)
    moreover have "360 * real j \<le> 360 * real n"
      using j by simp
    ultimately have lo: "0 \<le> s - 360 * real j"
      by simp
    have eq: "s - 360 * real j = real_of_int (m + int chunk * 45 - 360 * int j)"
      by (simp add: s)
    have "0 \<le> m + int chunk * 45 - 360 * int j"
      using lo unfolding eq by simp
    moreover have "m + int chunk * 45 - 360 * int j \<le> m + int chunk * 45"
      by simp
    ultimately have "\<bar>m + int chunk * 45 - 360 * int j\<bar> < 2 ^ 53"
      using m c by simp
    then show "binary64 (s - 360 * real j) = Num (s - 360 * real j)"
      unfolding eq by (rule binary64_int)
  qed
qed

text \<open>
  In doubles the loop does not end from \<open>2 ^ 70\<close>: taking 360 off gives \<open>2 ^ 70\<close>
  again.
\<close>

lemma wrap360_hangs_example: "wrap360 binary64 (Num (2 ^ 70)) = None"
proof -
  have step: "fsub binary64 (Num (2 ^ 70)) (Num 360) = Num (2 ^ 70)"
    using binary64_eq [of 69 "2 ^ 70 - 360"] by (simp add: round_even_def power_int_minus)
  let ?Q = "\<lambda>r v (b::pyfloat). \<not> (r = binary64 \<and> v = Num (2 ^ 70))"
  have "False" if "wrap360 binary64 (Num (2 ^ 70)) = Some y" for y
  proof -
    have "(case (binary64, Num (2 ^ 70)) of (r, v) \<Rightarrow> ?Q r v) y"
    proof (rule wrap360.raw_induct [where P = ?Q])
      show "(case (binary64, Num (2 ^ 70)) of (r, v) \<Rightarrow> wrap360 r v) = Some y"
        using that by simp
    next
      fix w r x z
      assume IH: "\<And>r b z. w r b = Some z \<Longrightarrow> ?Q r b z"
        and eq: "(if fge x (Num 360) then w r (fsub r x (Num 360)) else Some x) = Some z"
      show "?Q r x z"
      proof
        assume a: "r = binary64 \<and> x = Num (2 ^ 70)"
        then have "fge x (Num 360)"
          by (simp add: fge_def)
        with eq a step have "w binary64 (Num (2 ^ 70)) = Some z"
          by simp
        from IH [OF this] show False
          by simp
      qed
    qed
    then show False
      by simp
  qed
  then show ?thesis
    by (metis not_Some_eq)
qed

subsection \<open>The loop over the samples\<close>

lemma az_or_empty_snoc:
  "(case azp of None \<Rightarrow> [x] | Some a \<Rightarrow> a @ [x]) = az_or_empty azp @ [x]"
  by (cases azp) simp_all

text \<open>
  When the loop ends without an exception, it has emitted one warning for each visited
  index whose entry exceeds 91 and appended the azimuth at each other index, in the
  order of the visit; and every index it used was inside \<open>time\<close> or \<open>azimuth\<close>.
\<close>

lemma horizon_loop_result:
  assumes "horizon_loop altitude azimuth time str_time nm is azp ws = (None, azp', ws')"
  shows "ws' = ws @ map (\<lambda>i. warning_msg nm (str_time (time ! i)))
                      (filter (\<lambda>i. fgt (altitude ! i) (Num 91)) is)
         \<and> az_or_empty azp' = az_or_empty azp @ map (\<lambda>i. azimuth ! i)
                      (filter (\<lambda>i. \<not> fgt (altitude ! i) (Num 91)) is)"
  using assms
proof (induction "is" arbitrary: azp ws)
  case Nil
  then show ?case by simp
next
  case (Cons i rest)
  show ?case
  proof (cases "fgt (altitude ! i) (Num 91)")
    case True
    with Cons.prems have "i < length time"
      by (simp split: if_splits)
    with True Cons.prems Cons.IH [of azp "ws @ [warning_msg nm (str_time (time ! i))]"]
    show ?thesis by simp
  next
    case False
    with Cons.prems have "i < length azimuth"
      by (simp split: if_splits)
    with False Cons.prems
      Cons.IH [of "Some (case azp of None \<Rightarrow> [azimuth ! i] | Some a \<Rightarrow> a @ [azimuth ! i])" ws]
    show ?thesis by (simp add: az_or_empty_snoc)
  qed
qed

lemma horizon_loop_in_range:
  assumes "horizon_loop altitude azimuth time str_time nm is azp ws = (None, azp', ws')"
  shows "\<forall>i \<in> set is. if fgt (altitude ! i) (Num 91) then i < length time else i < length azimuth"
  using assms
proof (induction "is" arbitrary: azp ws)
  case Nil
  then show ?case by simp
next
  case (Cons i rest)
  show ?case
  proof (cases "fgt (altitude ! i) (Num 91)")
    case True
    with Cons.prems have "i < length time"
      by (simp split: if_splits)
    with True Cons.prems Cons.IH [of azp "ws @ [warning_msg nm (str_time (time ! i))]"]
    show ?thesis by simp
  next
    case False
    with Cons.prems have "i < length azimuth"
      by (simp split: if_splits)
    with False Cons.prems
      Cons.IH [of "Some (case azp of None \<Rightarrow> [azimuth ! i] | Some a \<Rightarrow> a @ [azimuth ! i])" ws]
    show ?thesis by simp
  qed
qed

text \<open>
  No exception when every visited index is inside \<open>time\<close> and \<open>azimuth\<close>.
\<close>

lemma horizon_loop_no_error:
  assumes "\<forall>i \<in> set is. i < length time \<and> i < length azimuth"
  shows "fst (horizon_loop altitude azimuth time str_time nm is azp ws) = None"
  using assms
  by (induction "is" arbitrary: azp ws) simp_all

lemma filter_by_index:
  "filter P xs = map (\<lambda>i. xs ! i) (filter (\<lambda>i. P (xs ! i)) [0..<length xs])"
proof -
  have "filter P xs = filter P (map (\<lambda>i. xs ! i) [0..<length xs])"
    by (simp add: map_nth)
  also have "\<dots> = map (\<lambda>i. xs ! i) (filter (\<lambda>i. P (xs ! i)) [0..<length xs])"
    by (simp add: filter_map comp_def)
  finally show ?thesis .
qed

lemma indices_by_altitude:
  "filter (\<lambda>i. fgt (altitude_of rnd frame1 ! i) (Num 91)) [0..<length frame1] =
   filter (\<lambda>i. fgt (fsub rnd (Num 91) (alt (frame1 ! i))) (Num 91)) [0..<length frame1]"
  "filter (\<lambda>i. \<not> fgt (altitude_of rnd frame1 ! i) (Num 91)) [0..<length frame1] =
   filter (\<lambda>i. \<not> fgt (fsub rnd (Num 91) (alt (frame1 ! i))) (Num 91)) [0..<length frame1]"
  by (rule filter_cong; auto simp: altitude_of_def)+

text \<open>
  Where no entry of \<open>altitude\<close> is NaN, the mask of line 138 keeps the indices at
  which the loop kept the azimuth.
\<close>

lemma kept_by_mask:
  assumes "\<forall>s \<in> set frame1. fsub rnd (Num 91) (alt s) \<noteq> NaN"
  shows "filter (\<lambda>a. fle a (Num 91)) (altitude_of rnd frame1) =
         map (\<lambda>i. fsub rnd (Num 91) (alt (frame1 ! i)))
           (filter (\<lambda>i. \<not> fgt (fsub rnd (Num 91) (alt (frame1 ! i))) (Num 91)) [0..<length frame1])"
proof -
  have "filter (\<lambda>a. fle a (Num 91)) (altitude_of rnd frame1) =
        map (\<lambda>s. fsub rnd (Num 91) (alt s)) (filter (\<lambda>s. fle (fsub rnd (Num 91) (alt s)) (Num 91)) frame1)"
    by (simp add: altitude_of_def filter_map comp_def)
  also have "filter (\<lambda>s. fle (fsub rnd (Num 91) (alt s)) (Num 91)) frame1 =
        filter (\<lambda>s. \<not> fgt (fsub rnd (Num 91) (alt s)) (Num 91)) frame1"
    by (rule filter_cong) (use assms in \<open>auto simp: fle_iff_not_fgt\<close>)
  also have "map (\<lambda>s. fsub rnd (Num 91) (alt s))
        (filter (\<lambda>s. \<not> fgt (fsub rnd (Num 91) (alt s)) (Num 91)) frame1) =
      map (\<lambda>i. fsub rnd (Num 91) (alt (frame1 ! i)))
           (filter (\<lambda>i. \<not> fgt (fsub rnd (Num 91) (alt (frame1 ! i))) (Num 91)) [0..<length frame1])"
    by (subst filter_by_index) (simp add: comp_def)
  finally show ?thesis .
qed

subsection \<open>How a call can end\<close>

text \<open>
  Both calls of the observer answer and nothing is raised: what the call leaves behind.
  The labels decide whether it returns or stays in the loop of lines 179 and 180.
\<close>

lemma plot_sky_past_loop:
  fixes altaz_method :: "'o \<Rightarrow> 't list \<Rightarrow> 'c target \<Rightarrow> ('e + altaz list) \<times> 'o"
  assumes call1: "altaz_method observer (as_array time) target = (Inr frame1, o1)"
    and call2: "altaz_method o1 (as_array time) target = (Inr frame2, o2)"
    and noraise: "\<forall>e. ended (plot_sky rnd str_time str_angle gca altaz_method target observer
           time ax style_kwargs north_to_east_ccw grid az_label_offset) \<noteq> Raised e"
  shows "plot_sky rnd str_time str_angle gca altaz_method target observer time ax style_kwargs
           north_to_east_ccw grid az_label_offset =
     \<lparr>ended = (case theta_labels rnd str_angle az_label_offset of
                 None \<Rightarrow> Hangs | Some labels \<Rightarrow> Returned),
      axes = (case ax of None \<Rightarrow> gca | Some a \<Rightarrow> a)
        \<lparr>theta_zero_location := ''N'',
         theta_direction := (if north_to_east_ccw
            then theta_direction (case ax of None \<Rightarrow> gca | Some a \<Rightarrow> a) else - 1),
         scatters := scatters (case ax of None \<Rightarrow> gca | Some a \<Rightarrow> a) @
           [\<lparr>sc_theta = map (\<lambda>i. azimuth_of rnd frame2 ! i)
               (filter (\<lambda>i. \<not> fgt (altitude_of rnd frame1 ! i) (Num 91)) [0..<length frame1]),
             sc_r = filter (\<lambda>a. fle a (Num 91)) (altitude_of rnd frame1),
             sc_kwargs = setdefault
               (setdefault (case style_kwargs of None \<Rightarrow> Map.empty | Some d \<Rightarrow> d)
                  ''marker'' (StrVal ''o''))
               ''label'' (target_name (name target))\<rparr>],
         rlim := (1, 91),
         major_grid := grid,
         rgrids := (case theta_labels rnd str_angle az_label_offset of
            None \<Rightarrow> rgrids (case ax of None \<Rightarrow> gca | Some a \<Rightarrow> a)
          | Some labels \<Rightarrow> (py_range 1 106 15, r_labels, - 45)),
         thetagrids := (case theta_labels rnd str_angle az_label_offset of
            None \<Rightarrow> thetagrids (case ax of None \<Rightarrow> gca | Some a \<Rightarrow> a)
          | Some labels \<Rightarrow> (py_range 0 360 45, labels, 1.2)),
         canvas_draws := (case theta_labels rnd str_angle az_label_offset of
            None \<Rightarrow> canvas_draws (case ax of None \<Rightarrow> gca | Some a \<Rightarrow> a)
          | Some labels \<Rightarrow> Suc (canvas_draws (case ax of None \<Rightarrow> gca | Some a \<Rightarrow> a)))\<rparr>,
      warned = map (\<lambda>i. warning_msg (shown_name (name target)) (str_time (as_array time ! i)))
                 (filter (\<lambda>i. fgt (altitude_of rnd frame1 ! i) (Num 91)) [0..<length frame1]),
      altaz_calls = [(as_array time, target), (as_array time, target)],
      observer_after = o2\<rparr>"
proof -
  obtain err :: "'e error option" and azp ws where
    run: "horizon_loop (altitude_of rnd frame1) (azimuth_of rnd frame2) (as_array time) str_time
            (shown_name (name target)) [0..<length (altitude_of rnd frame1)] None [] =
          (err, azp, ws)"
    by (metis prod_cases3)
  from noraise have "err = None"
    unfolding plot_sky_def
    by (cases err) (simp_all add: Let_def call1 call2 run)
  have len: "length (altitude_of rnd frame1) = length frame1"
    by (simp add: altitude_of_def)
  from horizon_loop_result [OF run [unfolded \<open>err = None\<close> len]]
  have ws: "ws = map (\<lambda>i. warning_msg (shown_name (name target)) (str_time (as_array time ! i)))
                 (filter (\<lambda>i. fgt (altitude_of rnd frame1 ! i) (Num 91)) [0..<length frame1])"
    and azs: "az_or_empty azp = map (\<lambda>i. azimuth_of rnd frame2 ! i)
               (filter (\<lambda>i. \<not> fgt (altitude_of rnd frame1 ! i) (Num 91)) [0..<length frame1])"
    by simp_all
  show ?thesis
    unfolding plot_sky_def
    by (cases "theta_labels rnd str_angle az_label_offset")
      (simp_all add: Let_def call1 call2 run \<open>err = None\<close> ws azs alt_mask_def)
qed

lemma plot_sky_kept_in_range:
  fixes altaz_method :: "'o \<Rightarrow> 't list \<Rightarrow> 'c target \<Rightarrow> ('e + altaz list) \<times> 'o"
  assumes call1: "altaz_method observer (as_array time) target = (Inr frame1, o1)"
    and call2: "altaz_method o1 (as_array time) target = (Inr frame2, o2)"
    and noraise: "\<forall>e. ended (plot_sky rnd str_time str_angle gca altaz_method target observer
           time ax style_kwargs north_to_east_ccw grid az_label_offset) \<noteq> Raised e"
  shows "\<forall>i<length frame1. \<not> fgt (altitude_of rnd frame1 ! i) (Num 91) \<longrightarrow> i < length frame2"
proof -
  obtain err :: "'e error option" and azp ws where
    run: "horizon_loop (altitude_of rnd frame1) (azimuth_of rnd frame2) (as_array time) str_time
            (shown_name (name target)) [0..<length (altitude_of rnd frame1)] None [] =
          (err, azp, ws)"
    by (metis prod_cases3)
  from noraise have "err = None"
    unfolding plot_sky_def
    by (cases err) (simp_all add: Let_def call1 call2 run)
  from horizon_loop_in_range [OF run [unfolded this]] show ?thesis
    by (auto simp: altitude_of_def azimuth_of_def split: if_splits)
qed

text \<open>
  Nothing is raised when both answers have one entry for each entry of the first.
\<close>

lemma plot_sky_no_raise:
  fixes altaz_method :: "'o \<Rightarrow> 't list \<Rightarrow> 'c target \<Rightarrow> ('e + altaz list) \<times> 'o"
  assumes call1: "altaz_method observer (as_array time) target = (Inr frame1, o1)"
    and call2: "altaz_method o1 (as_array time) target = (Inr frame2, o2)"
    and len1: "length frame1 \<le> length (as_array time)"
    and len2: "length frame1 \<le> length frame2"
  shows "\<forall>e. ended (plot_sky rnd str_time str_angle gca altaz_method target observer
           time ax style_kwargs north_to_east_ccw grid az_label_offset) \<noteq> Raised e"
proof -
  have "\<forall>i \<in> set [0..<length (altitude_of rnd frame1)].
          i < length (as_array time) \<and> i < length (azimuth_of rnd frame2)"
    using len1 len2 by (simp add: altitude_of_def azimuth_of_def)
  then have "fst (horizon_loop (altitude_of rnd frame1) (azimuth_of rnd frame2) (as_array time)
            str_time (shown_name (name target)) [0..<length (altitude_of rnd frame1)] None []
            :: 'e error option \<times> pyfloat list option \<times> string list) = None"
    by (rule horizon_loop_no_error)
  then obtain azp ws where
    "horizon_loop (altitude_of rnd frame1) (azimuth_of rnd frame2) (as_array time) str_time
            (shown_name (name target)) [0..<length (altitude_of rnd frame1)] None [] =
     (None :: 'e error option, azp, ws)"
    by (metis fst_conv prod_cases3)
  then show ?thesis
    unfolding plot_sky_def
    by (cases "theta_labels rnd str_angle az_label_offset")
      (simp_all add: Let_def call1 call2)
qed

text \<open>
  A call that returns has had two answers from the observer and seven labels.
\<close>

lemma plot_sky_returned:
  fixes altaz_method :: "'o \<Rightarrow> 't list \<Rightarrow> 'c target \<Rightarrow> ('e + altaz list) \<times> 'o"
  assumes "ended (plot_sky rnd str_time str_angle gca altaz_method target observer
           time ax style_kwargs north_to_east_ccw grid az_label_offset) = Returned"
  shows "\<exists>frame1 o1 frame2 o2 labels.
           altaz_method observer (as_array time) target = (Inr frame1, o1) \<and>
           altaz_method o1 (as_array time) target = (Inr frame2, o2) \<and>
           theta_labels rnd str_angle az_label_offset = Some labels"
proof -
  obtain answer1 o1 where c1: "altaz_method observer (as_array time) target = (answer1, o1)"
    by (cases "altaz_method observer (as_array time) target")
  obtain answer2 o2 where c2: "altaz_method o1 (as_array time) target = (answer2, o2)"
    by (cases "altaz_method o1 (as_array time) target")
  from assms c1 obtain frame1 where f1: "answer1 = Inr frame1"
    unfolding plot_sky_def by (cases answer1) (simp_all add: Let_def)
  from assms c1 c2 f1 obtain frame2 where f2: "answer2 = Inr frame2"
    unfolding plot_sky_def by (cases answer2) (simp_all add: Let_def)
  have nr: "\<forall>e. ended (plot_sky rnd str_time str_angle gca altaz_method target observer
           time ax style_kwargs north_to_east_ccw grid az_label_offset) \<noteq> Raised e"
    using assms by simp
  from assms obtain labels where "theta_labels rnd str_angle az_label_offset = Some labels"
    by (subst (asm) plot_sky_past_loop [OF c1 [unfolded f1] c2 [unfolded f2] nr])
      (cases "theta_labels rnd str_angle az_label_offset"; simp)
  with c1 c2 f1 f2 show ?thesis
    by blast
qed

lemma theta_labels_Some:
  assumes "theta_labels rnd str_angle off = Some labels"
  shows "\<exists>a. (\<forall>k<7. label_angle rnd off k = Some (a k)) \<and>
     labels =
     [''N '' @ newline @ str_angle (a 0) @ degree_sign @ '' Az'',
      str_angle (a 1) @ degree_sign,
      ''E'' @ newline @ str_angle (a 2) @ degree_sign,
      str_angle (a 3) @ degree_sign,
      ''S'' @ newline @ str_angle (a 4) @ degree_sign,
      str_angle (a 5) @ degree_sign,
      ''W'' @ newline @ str_angle (a 6) @ degree_sign]"
proof -
  have idx: "[0..<7] = [0, 1, 2, 3, 4, 5, 6::nat]"
    by code_simp
  have all: "\<forall>k<7. \<exists>la. label_angle rnd off k = Some la"
  proof (intro allI impI)
    fix k :: nat assume "k < 7"
    then have "k \<in> {0, 1, 2, 3, 4, 5, 6}"
      by auto
    with assms show "\<exists>la. label_angle rnd off k = Some la"
      unfolding theta_labels_def theta_label_def idx
      by (auto split: option.splits)
  qed
  define a where "a k = the (label_angle rnd off k)" for k
  have a: "\<forall>k<7. label_angle rnd off k = Some (a k)"
    using all by (auto simp: a_def)
  then have "label_angle rnd off 0 = Some (a 0)" "label_angle rnd off 1 = Some (a 1)"
    "label_angle rnd off 2 = Some (a 2)" "label_angle rnd off 3 = Some (a 3)"
    "label_angle rnd off 4 = Some (a 4)" "label_angle rnd off 5 = Some (a 5)"
    "label_angle rnd off 6 = Some (a 6)"
    by simp_all
  with assms have "labels =
     [''N '' @ newline @ str_angle (a 0) @ degree_sign @ '' Az'',
      str_angle (a 1) @ degree_sign,
      ''E'' @ newline @ str_angle (a 2) @ degree_sign,
      str_angle (a 3) @ degree_sign,
      ''S'' @ newline @ str_angle (a 4) @ degree_sign,
      str_angle (a 5) @ degree_sign,
      ''W'' @ newline @ str_angle (a 6) @ degree_sign]"
    unfolding theta_labels_def theta_label_def idx by simp
  with a show ?thesis
    by blast
qed

lemma py_range_rgrids: "py_range 1 106 15 = [1, 16, 31, 46, 61, 76, 91]"
  by code_simp

lemma py_range_thetagrids: "py_range 0 360 45 = [0, 45, 90, 135, 180, 225, 270, 315]"
  by code_simp

lemma plot_sky_returned_axes:
  fixes altaz_method :: "'o \<Rightarrow> 't list \<Rightarrow> 'c target \<Rightarrow> ('e + altaz list) \<times> 'o"
  assumes out: "out = plot_sky rnd str_time str_angle gca altaz_method target observer time ax
                  style_kwargs north_to_east_ccw grid az_label_offset"
    and ok: "ended out = Returned"
  shows "theta_zero_location (axes out) = ''N''"
    and "theta_direction (axes out) =
      (if north_to_east_ccw then theta_direction (case ax of None \<Rightarrow> gca | Some a \<Rightarrow> a)
       else - 1)"
    and "rlim (axes out) = (1, 91)"
    and "major_grid (axes out) = grid"
    and "rgrids (axes out) = (py_range 1 106 15, r_labels, - 45)"
    and "\<exists>labels. theta_labels rnd str_angle az_label_offset = Some labels \<and>
           thetagrids (axes out) = (py_range 0 360 45, labels, 1.2)"
    and "canvas_draws (axes out) = Suc (canvas_draws (case ax of None \<Rightarrow> gca | Some a \<Rightarrow> a))"
proof -
  from plot_sky_returned [OF ok [unfolded out]] obtain frame1 o1 frame2 o2 labels where
    c1: "altaz_method observer (as_array time) target = (Inr frame1, o1)" and
    c2: "altaz_method o1 (as_array time) target = (Inr frame2, o2)" and
    tl: "theta_labels rnd str_angle az_label_offset = Some labels"
    by blast
  have nr: "\<forall>e. ended (plot_sky rnd str_time str_angle gca altaz_method target observer
           time ax style_kwargs north_to_east_ccw grid az_label_offset) \<noteq> Raised e"
    using ok out by simp
  note eq = plot_sky_past_loop [OF c1 c2 nr]
  show "theta_zero_location (axes out) = ''N''"
    unfolding out by (subst eq) simp
  show "theta_direction (axes out) =
      (if north_to_east_ccw then theta_direction (case ax of None \<Rightarrow> gca | Some a \<Rightarrow> a)
       else - 1)"
    unfolding out by (subst eq) simp
  show "rlim (axes out) = (1, 91)"
    unfolding out by (subst eq) simp
  show "major_grid (axes out) = grid"
    unfolding out by (subst eq) simp
  show "rgrids (axes out) = (py_range 1 106 15, r_labels, - 45)"
    unfolding out by (subst eq) (simp add: tl)
  show "\<exists>labels. theta_labels rnd str_angle az_label_offset = Some labels \<and>
           thetagrids (axes out) = (py_range 0 360 45, labels, 1.2)"
    unfolding out by (subst eq) (simp add: tl)
  show "canvas_draws (axes out) = Suc (canvas_draws (case ax of None \<Rightarrow> gca | Some a \<Rightarrow> a))"
    unfolding out by (subst eq) (simp add: tl)
qed

subsection \<open>The example inputs\<close>

lemma label_angle_example:
  "label_angle binary64 (Num 100) 0 = Some (Num 100)"
  "label_angle binary64 (Num 100) (Suc 0) = Some (Num 145)"
  "label_angle binary64 (Num 100) 2 = Some (Num 190)"
  "label_angle binary64 (Num 100) 3 = Some (Num 235)"
  "label_angle binary64 (Num 100) 4 = Some (Num 280)"
  "label_angle binary64 (Num 100) 5 = Some (Num 325)"
  "label_angle binary64 (Num 100) 6 = Some (Num 10)"
  unfolding label_angle_def
  by (simp_all add: binary64_numeral binary64_zero_one wrap360.simps fge_def)

lemma theta_labels_example:
  "theta_labels binary64 example_str_angle (Num 100) = Some
     [''N '' @ newline @ ''100.0'' @ degree_sign @ '' Az'', ''145.0'' @ degree_sign,
      ''E'' @ newline @ ''190.0'' @ degree_sign, ''235.0'' @ degree_sign,
      ''S'' @ newline @ ''280.0'' @ degree_sign, ''325.0'' @ degree_sign,
      ''W'' @ newline @ ''10.0'' @ degree_sign]"
proof -
  have idx: "[0..<7] = [0, 1, 2, 3, 4, 5, 6::nat]"
    by code_simp
  show ?thesis
    unfolding theta_labels_def theta_label_def idx
    by (simp add: label_angle_example example_str_angle_def)
qed

lemma example_returns:
  "ended (plot_sky binary64 iso example_str_angle new_polar_axes example_altaz vega ()
     tm ax None flag True (Num 100)) = Returned"
proof -
  have c: "example_altaz () (as_array tm) vega = (Inr (map example_position (as_array tm)), ())"
    by (simp add: example_altaz_def)
  have nr: "\<forall>e. ended (plot_sky binary64 iso example_str_angle new_polar_axes example_altaz vega ()
     tm ax None flag True (Num 100)) \<noteq> Raised (e :: string error)"
    by (rule plot_sky_no_raise [where altaz_method = example_altaz and observer = "()"
          and ?o1.0 = "()" and ?o2.0 = "()", OF c c]) simp_all
  show ?thesis
    by (subst plot_sky_past_loop [where altaz_method = example_altaz and observer = "()"
          and ?o1.0 = "()" and ?o2.0 = "()", OF c c nr]) (simp add: theta_labels_example)
qed

lemma exact_example_returns:
  "ended (plot_sky Num iso example_str_angle new_polar_axes example_altaz vega ()
     tm ax None flag True (Num 0)) = Returned"
proof -
  have c: "example_altaz () (as_array tm) vega = (Inr (map example_position (as_array tm)), ())"
    by (simp add: example_altaz_def)
  have nr: "\<forall>e. ended (plot_sky Num iso example_str_angle new_polar_axes example_altaz vega ()
     tm ax None flag True (Num 0)) \<noteq> Raised (e :: string error)"
    by (rule plot_sky_no_raise [where altaz_method = example_altaz and observer = "()"
          and ?o1.0 = "()" and ?o2.0 = "()", OF c c]) simp_all
  have idx: "[0..<7] = [0, 1, 2, 3, 4, 5, 6::nat]"
    by code_simp
  have "\<exists>labels. theta_labels Num example_str_angle (Num 0) = Some labels"
    unfolding theta_labels_def theta_label_def label_angle_def idx
    by (simp add: wrap360.simps fge_def)
  then show ?thesis
    by (subst plot_sky_past_loop [where altaz_method = example_altaz and observer = "()"
          and ?o1.0 = "()" and ?o2.0 = "()", OF c c nr]) auto
qed

subsection \<open>Claims about the time argument and the tick labels\<close>

text \<open>
  Claim C5. A scalar instant and an array holding only that instant give the same
  outcome: the same ending, the same Axes object with the same points and settings, the
  same warnings and the same observer calls.
\<close>

theorem scalar_time_same_as_singleton:
  "plot_sky rnd str_time str_angle gca altaz_method target observer (Scalar t) ax style_kwargs
     north_to_east_ccw grid az_label_offset =
   plot_sky rnd str_time str_angle gca altaz_method target observer (Array [t]) ax style_kwargs
     north_to_east_ccw grid az_label_offset"
  unfolding plot_sky_def by simp




subsection \<open>Claims about the positions and the observer\<close>






text \<open>
  Claim C9 says that the two sequences given to the scatter call have the same length and
  pair up sample by sample, for every input. The code breaks this when an altitude is NaN:
  the test of line 128 is false, so the loop keeps the azimuth, and the mask of line 138 is
  false too, so the altitude is dropped. In the example the scatter call gets two angles
  and one radius.
\<close>

theorem nan_altitude_breaks_pairing:
  "example_altaz () (as_array (Array [''noon'', ''void''])) vega =
     (Inr [\<lparr>alt = Num 45, az = Num 180\<rparr>, \<lparr>alt = NaN, az = Num 0\<rparr>], ()) \<and>
   sc_theta (last (scatters (axes (plot_sky binary64 iso example_str_angle new_polar_axes
     example_altaz vega () (Array [''noon'', ''void'']) None None True True (Num 0))))) =
     [fmul binary64 (Num 180) (deg2rad binary64), fmul binary64 (Num 0) (deg2rad binary64)] \<and>
   sc_r (last (scatters (axes (plot_sky binary64 iso example_str_angle new_polar_axes
     example_altaz vega () (Array [''noon'', ''void'']) None None True True (Num 0))))) =
     [Num 46]"
proof -
  have a: "example_altaz () (as_array (Array [''noon'', ''void''])) vega =
     (Inr [\<lparr>alt = Num 45, az = Num 180\<rparr>, \<lparr>alt = NaN, az = Num 0\<rparr>], ())"
    by (simp add: example_altaz_def example_position_def)
  have nr: "\<forall>e. ended (plot_sky binary64 iso example_str_angle new_polar_axes example_altaz vega
     () (Array [''noon'', ''void'']) None None True True (Num 0)) \<noteq> Raised (e :: string error)"
    by (rule plot_sky_no_raise [where altaz_method = example_altaz and observer = "()"
          and ?o1.0 = "()" and ?o2.0 = "()", OF a a]) simp_all
  note eq = plot_sky_past_loop [where altaz_method = example_altaz and observer = "()"
          and ?o1.0 = "()" and ?o2.0 = "()", OF a a nr]
  have alts: "altitude_of binary64 [\<lparr>alt = Num 45, az = Num 180\<rparr>, \<lparr>alt = NaN, az = Num 0\<rparr>] =
      [Num 46, NaN]"
    by (simp add: altitude_of_def binary64_numeral)
  have "sc_theta (last (scatters (axes (plot_sky binary64 iso example_str_angle new_polar_axes
     example_altaz vega () (Array [''noon'', ''void'']) None None True True (Num 0))))) =
     [fmul binary64 (Num 180) (deg2rad binary64), fmul binary64 (Num 0) (deg2rad binary64)]"
    by (subst eq) (simp add: alts fgt_def azimuth_of_def upt_rec_numeral)
  moreover have "sc_r (last (scatters (axes (plot_sky binary64 iso example_str_angle
     new_polar_axes example_altaz vega () (Array [''noon'', ''void'']) None None True True
     (Num 0))))) = [Num 46]"
    by (subst eq) (simp add: alts)
  ultimately show ?thesis
    using a by simp
qed




text \<open>
  Claim C8. When a call of \<open>observer.altaz\<close> fails, at line 114 or at line 116 after
  line 114 got its answer, \<open>plot_sky\<close> raises that failure as it is. The Axes object is
  what it was (no scatter call has been made), no warning has been emitted, and the
  method has been called once for each line reached and never again.
\<close>

theorem observer_failure_propagates:
  fixes altaz_method :: "'o \<Rightarrow> 't list \<Rightarrow> 'c target \<Rightarrow> ('e + altaz list) \<times> 'o"
  assumes out: "out = plot_sky rnd str_time str_angle gca altaz_method target observer time ax
                style_kwargs north_to_east_ccw grid az_label_offset"
  shows "(altaz_method observer (as_array time) target = (Inl e, o1) \<longrightarrow>
           ended out = Raised (ObserverFailure e) \<and>
           axes out = (case ax of None \<Rightarrow> gca | Some a \<Rightarrow> a) \<and>
           warned out = [] \<and>
           altaz_calls out = [(as_array time, target)] \<and>
           observer_after out = o1) \<and>
         (altaz_method observer (as_array time) target = (Inr frame1, o1) \<and>
          altaz_method o1 (as_array time) target = (Inl e, o2) \<longrightarrow>
           ended out = Raised (ObserverFailure e) \<and>
           axes out = (case ax of None \<Rightarrow> gca | Some a \<Rightarrow> a) \<and>
           warned out = [] \<and>
           altaz_calls out = [(as_array time, target), (as_array time, target)] \<and>
           observer_after out = o2)"
  unfolding out plot_sky_def by (simp add: Let_def)

theorem observer_failure_propagates_witness:
  "failing_altaz () (as_array (Scalar ''noon'')) vega = (Inl ''unresolvable target'', ()) \<and>
   ended (plot_sky binary64 iso example_str_angle new_polar_axes failing_altaz vega ()
     (Scalar ''noon'') (Some clockwise_axes) None True True (Num 0)) =
     Raised (ObserverFailure ''unresolvable target'') \<and>
   axes (plot_sky binary64 iso example_str_angle new_polar_axes failing_altaz vega ()
     (Scalar ''noon'') (Some clockwise_axes) None True True (Num 0)) = clockwise_axes \<and>
   altaz_calls (plot_sky binary64 iso example_str_angle new_polar_axes failing_altaz vega ()
     (Scalar ''noon'') (Some clockwise_axes) None True True (Num 0)) = [([''noon''], vega)] \<and>
   flaky_altaz 0 (as_array (Scalar ''noon'')) vega =
     (Inr [\<lparr>alt = Num 45, az = Num 180\<rparr>], Suc 0) \<and>
   flaky_altaz (Suc 0) (as_array (Scalar ''noon'')) vega = (Inl ''connection lost'', Suc (Suc 0)) \<and>
   ended (plot_sky binary64 iso example_str_angle new_polar_axes flaky_altaz vega 0
     (Scalar ''noon'') (Some clockwise_axes) None True True (Num 0)) =
     Raised (ObserverFailure ''connection lost'') \<and>
   axes (plot_sky binary64 iso example_str_angle new_polar_axes flaky_altaz vega 0
     (Scalar ''noon'') (Some clockwise_axes) None True True (Num 0)) = clockwise_axes \<and>
   scatters clockwise_axes = [] \<and>
   warned (plot_sky binary64 iso example_str_angle new_polar_axes flaky_altaz vega 0
     (Scalar ''noon'') (Some clockwise_axes) None True True (Num 0)) = [] \<and>
   altaz_calls (plot_sky binary64 iso example_str_angle new_polar_axes flaky_altaz vega 0
     (Scalar ''noon'') (Some clockwise_axes) None True True (Num 0)) =
     [([''noon''], vega), ([''noon''], vega)]"
proof -
  have a: "failing_altaz () (as_array (Scalar ''noon'')) vega = (Inl ''unresolvable target'', ())"
    by (simp add: failing_altaz_def)
  have b: "flaky_altaz 0 (as_array (Scalar ''noon'')) vega =
     (Inr [\<lparr>alt = Num 45, az = Num 180\<rparr>], Suc 0)"
    by (simp add: flaky_altaz_def example_position_def)
  have c: "flaky_altaz (Suc 0) (as_array (Scalar ''noon'')) vega =
     (Inl ''connection lost'', Suc (Suc 0))"
    by (simp add: flaky_altaz_def)
  note m = observer_failure_propagates [where altaz_method = failing_altaz and observer = "()"
      and time = "Scalar ''noon''" and target = vega and rnd = binary64
      and str_time = iso and str_angle = example_str_angle and gca = new_polar_axes
      and ax = "Some clockwise_axes" and style_kwargs = None and north_to_east_ccw = True
      and grid = True and az_label_offset = "Num 0" and e = "''unresolvable target''"
      and ?o1.0 = "()", OF refl, THEN conjunct1, rule_format, OF a]
  note n = observer_failure_propagates [where altaz_method = flaky_altaz and observer = 0
      and time = "Scalar ''noon''" and target = vega and rnd = binary64
      and str_time = iso and str_angle = example_str_angle and gca = new_polar_axes
      and ax = "Some clockwise_axes" and style_kwargs = None and north_to_east_ccw = True
      and grid = True and az_label_offset = "Num 0" and e = "''connection lost''"
      and ?o1.0 = "Suc 0" and ?o2.0 = "Suc (Suc 0)"
      and ?frame1.0 = "[\<lparr>alt = Num 45, az = Num 180\<rparr>]", OF refl, THEN conjunct2, rule_format,
      OF conjI [OF b c]]
  from a b c m n show ?thesis
    by (simp add: clockwise_axes_def new_polar_axes_def)
qed

subsection \<open>Claims about the decoration of the Axes object\<close>







end
